theory Spec2Isabelle
  imports Complex_Main "HOL-Library.Sublist"
begin

section \<open>The session engine's messages\<close>

text \<open>
  The client is written against the quickfix session engine. A message has a header and a
  body; each is a \<^verbatim>\<open>FieldMap\<close>, whose \<^verbatim>\<open>tagLookup\<close> maps a tag to a field, and a field is a
  non-empty slice of tag-value pairs: the pair of the tag itself first, and for a repeating
  group the pairs of its entries after it. A field is kept here as the value of its first
  pair together with the pairs that follow.
\<close>

type_synonym Tag = nat
type_synonym TagValue = "Tag \<times> string"
type_synonym field = "string \<times> TagValue list"
type_synonym FieldMap = "Tag \<rightharpoonup> field"

record Message =
  Header :: FieldMap
  Body :: FieldMap

text \<open>
  The errors the code can return. The first two are the engine's reject errors of
  \<^verbatim>\<open>FieldMap.Get\<close>; \<^verbatim>\<open>ErrorsNew s\<close> is \<^verbatim>\<open>errors.New(s)\<close>; \<^verbatim>\<open>NumError\<close> is the error of
  \<^verbatim>\<open>strconv.ParseInt\<close> and \<^verbatim>\<open>strconv.ParseFloat\<close> with the text it was given;
  \<^verbatim>\<open>TimeParseError\<close> is the error of \<^verbatim>\<open>time.Parse\<close>; \<^verbatim>\<open>ErrClosed\<close> is the package variable of
  that name; the two context errors are what \<^verbatim>\<open>ctx.Err()\<close> returns; \<^verbatim>\<open>SendError\<close> is
  whatever \<^verbatim>\<open>quickfix.Send\<close> reports.
\<close>

datatype num_err = ErrSyntax | ErrRange

datatype error =
    ConditionallyRequiredFieldMissing Tag
  | IncorrectDataFormatForValue Tag
  | ErrorsNew string
  | NumError num_err string
  | TimeParseError string
  | ErrClosed
  | ContextCanceled
  | ContextDeadlineExceeded
  | SendError string

definition NewMessage :: Message where
  "NewMessage = \<lparr>Header = Map.empty, Body = Map.empty\<rparr>"

definition Has :: "FieldMap \<Rightarrow> Tag \<Rightarrow> bool" where
  "Has m t = (m t \<noteq> None)"

definition GetString :: "FieldMap \<Rightarrow> Tag \<Rightarrow> error + string" where
  "GetString m t =
     (case m t of
        None \<Rightarrow> Inl (ConditionallyRequiredFieldMissing t)
      | Some (v, _) \<Rightarrow> Inr v)"

text \<open>
  \<^verbatim>\<open>FieldMap.Get(&f)\<close> for a typed field \<^verbatim>\<open>f\<close>: the field's tag \<open>t\<close> and the reader of its
  value type. A missing tag and a value the reader refuses are the two errors.
\<close>

definition Get :: "FieldMap \<Rightarrow> Tag \<Rightarrow> (string \<Rightarrow> 'a option) \<Rightarrow> error + 'a" where
  "Get m t rd =
     (case m t of
        None \<Rightarrow> Inl (ConditionallyRequiredFieldMissing t)
      | Some (v, _) \<Rightarrow>
          (case rd v of
             None \<Rightarrow> Inl (IncorrectDataFormatForValue t)
           | Some x \<Rightarrow> Inr x))"

definition FIXString :: "string \<Rightarrow> string option" where
  "FIXString v = Some v"

definition SetField :: "FieldMap \<Rightarrow> Tag \<Rightarrow> string \<Rightarrow> FieldMap" where
  "SetField m t v = m(t \<mapsto> (v, []))"

text \<open>The tags and enumeration values of the protocol that the code names.\<close>

definition tagClOrdID :: Tag where "tagClOrdID = 11"
definition tagCumQty :: Tag where "tagCumQty = 14"
definition tagLastPx :: Tag where "tagLastPx = 31"
definition tagLastQty :: Tag where "tagLastQty = 32"
definition tagOrderID :: Tag where "tagOrderID = 37"
definition tagOrderQty :: Tag where "tagOrderQty = 38"
definition tagOrdStatus :: Tag where "tagOrdStatus = 39"
definition tagOrdType :: Tag where "tagOrdType = 40"
definition tagPrice :: Tag where "tagPrice = 44"
definition tagSide :: Tag where "tagSide = 54"
definition tagSymbol :: Tag where "tagSymbol = 55"
definition tagText :: Tag where "tagText = 58"
definition tagTimeInForce :: Tag where "tagTimeInForce = 59"
definition tagTransactTime :: Tag where "tagTransactTime = 60"
definition tagMaxFloor :: Tag where "tagMaxFloor = 111"
definition tagCumQuoteQty :: Tag where "tagCumQuoteQty = 381"
definition tagOrderCreationTime :: Tag where "tagOrderCreationTime = 6635"
definition tagWorkingTime :: Tag where "tagWorkingTime = 636"

section \<open>strconv.ParseInt\<close>

text \<open>
  \<^verbatim>\<open>strconv.ParseInt(s, 10, 64)\<close>. The digits are scanned from the left; the scan stops at
  the first byte that is not a decimal digit (a syntax error) or at the first digit with
  which the value passes \<open>2^64 - 1\<close> (a range error). Go returns a value together with
  the error: zero with a syntax error, the nearest bound with a range error.
\<close>

definition digitVal :: "char \<Rightarrow> nat option" where
  "digitVal c =
     (let n = (of_char c :: nat) in if 48 \<le> n \<and> n \<le> 57 then Some (n - 48) else None)"

fun scanUint :: "nat \<Rightarrow> string \<Rightarrow> num_err + nat" where
  "scanUint n [] = Inr n"
| "scanUint n (c # cs) =
     (case digitVal c of
        None \<Rightarrow> Inl ErrSyntax
      | Some d \<Rightarrow> if n * 10 + d > 2 ^ 64 - 1 then Inl ErrRange else scanUint (n * 10 + d) cs)"

definition ParseUint :: "string \<Rightarrow> nat \<times> num_err option" where
  "ParseUint s =
     (if s = [] then (0, Some ErrSyntax)
      else case scanUint 0 s of
             Inl ErrSyntax \<Rightarrow> (0, Some ErrSyntax)
           | Inl ErrRange \<Rightarrow> (2 ^ 64 - 1, Some ErrRange)
           | Inr n \<Rightarrow> (n, None))"

definition ParseInt :: "string \<Rightarrow> int \<times> error option" where
  "ParseInt s0 =
     (if s0 = [] then (0, Some (NumError ErrSyntax s0))
      else
        let neg = (hd s0 = CHR ''-'');
            s = (if hd s0 = CHR ''+'' \<or> hd s0 = CHR ''-'' then tl s0 else s0);
            (un, err) = ParseUint s
        in if err = Some ErrSyntax then (0, Some (NumError ErrSyntax s0))
           else if \<not> neg \<and> un \<ge> 2 ^ 63 then (2 ^ 63 - 1, Some (NumError ErrRange s0))
           else if neg \<and> un > 2 ^ 63 then (- (2 ^ 63), Some (NumError ErrRange s0))
           else (if neg then - int un else int un, None))"

text \<open>
  A Go call \<^verbatim>\<open>v, err := f()\<close> whose caller returns the error when \<^verbatim>\<open>err != nil\<close>:
  \<open>checked\<close> turns Go's pair into a sum, and \<open>bindE r f\<close> goes on with \<open>f v\<close> only when
  \<open>r\<close> is a value \<open>v\<close>.
\<close>

definition bindE :: "error + 'a \<Rightarrow> ('a \<Rightarrow> error + 'b) \<Rightarrow> error + 'b" where
  "bindE r f = (case r of Inl e \<Rightarrow> Inl e | Inr v \<Rightarrow> f v)"

definition checked :: "'a \<times> error option \<Rightarrow> error + 'a" where
  "checked r = (case snd r of Some e \<Rightarrow> Inl e | None \<Rightarrow> Inr (fst r))"

section \<open>Values the model does not compute\<close>

text \<open>
  Prices and quantities are \<^verbatim>\<open>float64\<close> and times are \<^verbatim>\<open>time.Time\<close>; the model keeps both
  types abstract (\<open>'f\<close> and \<open>'t\<close>), with Go's zero value written \<open>0\<close>, and takes the
  library's parsers as parameters:
  \<^item> \<open>readDecimal\<close>: the \<^verbatim>\<open>FIXDecimal\<close> reader followed by \<^verbatim>\<open>InexactFloat64\<close>;
  \<^item> \<open>parseFloat\<close>: \<^verbatim>\<open>strconv.ParseFloat(s, 64)\<close>, with the kind of its error;
  \<^item> \<open>readUTCTimestamp\<close>: the \<^verbatim>\<open>FIXUTCTimestamp\<close> reader;
  \<^item> \<open>parseMicros\<close>: \<^verbatim>\<open>time.Parse(utcTimestampMicrosFmt, s)\<close>.
\<close>

record ('f, 't) parsers =
  readDecimal :: "string \<Rightarrow> 'f option"
  parseFloat :: "string \<Rightarrow> num_err + 'f"
  readUTCTimestamp :: "string \<Rightarrow> 't option"
  parseMicros :: "string \<Rightarrow> 't option"

definition ParseFloat :: "('f, 't) parsers \<Rightarrow> string \<Rightarrow> error + 'f" where
  "ParseFloat P s = (case parseFloat P s of Inl k \<Rightarrow> Inl (NumError k s) | Inr x \<Rightarrow> Inr x)"

definition timeParse :: "('f, 't) parsers \<Rightarrow> string \<Rightarrow> error + 't" where
  "timeParse P s = (case parseMicros P s of None \<Rightarrow> Inl (TimeParseError s) | Some x \<Rightarrow> Inr x)"

section \<open>handlers: the order enumerations\<close>

type_synonym OrderStatus = string
type_synonym TimeInForce = string
type_synonym OrderType = string
type_synonym SideType = string

definition OrderStatusNew :: OrderStatus where "OrderStatusNew = ''NEW''"
definition OrderStatusPartiallyFilled :: OrderStatus where
  "OrderStatusPartiallyFilled = ''PARTIALLY_FILLED''"
definition OrderStatusFilled :: OrderStatus where "OrderStatusFilled = ''FILLED''"
definition OrderStatusCanceled :: OrderStatus where "OrderStatusCanceled = ''CANCELED''"
definition OrderStatusPendingCancel :: OrderStatus where
  "OrderStatusPendingCancel = ''PENDING_CANCEL''"
definition OrderStatusRejected :: OrderStatus where "OrderStatusRejected = ''REJECTED''"
definition OrderStatusPendingNew :: OrderStatus where "OrderStatusPendingNew = ''PENDING_NEW''"
definition OrderStatusExpired :: OrderStatus where "OrderStatusExpired = ''EXPIRED''"

text \<open>
  The keys are the engine's enumeration values: \<^verbatim>\<open>enum.OrdStatus_NEW\<close> is \<^verbatim>\<open>"0"\<close>, and so
  on. A Go map read \<^verbatim>\<open>m[k]\<close> of a missing key gives the zero value of the value type, here
  the empty string.
\<close>

definition mappedOrderStatus :: "(string \<times> OrderStatus) list" where
  "mappedOrderStatus =
     [(''0'', OrderStatusNew), (''1'', OrderStatusPartiallyFilled), (''2'', OrderStatusFilled),
      (''4'', OrderStatusCanceled), (''6'', OrderStatusPendingCancel),
      (''8'', OrderStatusRejected), (''A'', OrderStatusPendingNew), (''C'', OrderStatusExpired)]"

definition TimeInForceGTC :: TimeInForce where "TimeInForceGTC = ''GOOD_TILL_CANCEL''"
definition TimeInForceIOC :: TimeInForce where "TimeInForceIOC = ''IMMEDIATE_OR_CANCEL''"
definition TimeInForceFOK :: TimeInForce where "TimeInForceFOK = ''FILL_OR_KILL''"

definition mappedTimeInForce :: "(string \<times> TimeInForce) list" where
  "mappedTimeInForce = [(''1'', TimeInForceGTC), (''3'', TimeInForceIOC), (''4'', TimeInForceFOK)]"

definition OrderTypeMarket :: OrderType where "OrderTypeMarket = ''MARKET''"
definition OrderTypeLimit :: OrderType where "OrderTypeLimit = ''LIMIT''"
definition OrderTypeStop :: OrderType where "OrderTypeStop = ''STOP''"
definition OrderTypeStopLimit :: OrderType where "OrderTypeStopLimit = ''STOP_LIMIT''"

definition mappedOrderType :: "(string \<times> OrderType) list" where
  "mappedOrderType =
     [(''1'', OrderTypeMarket), (''2'', OrderTypeLimit), (''3'', OrderTypeStop),
      (''4'', OrderTypeStopLimit)]"

definition SideTypeBuy :: SideType where "SideTypeBuy = ''BUY''"
definition SideTypeSell :: SideType where "SideTypeSell = ''SELL''"

definition mappedSideType :: "(string \<times> SideType) list" where
  "mappedSideType = [(''1'', SideTypeBuy), (''2'', SideTypeSell)]"

definition lookupEnum :: "(string \<times> string) list \<Rightarrow> string \<Rightarrow> string" where
  "lookupEnum m k = (case map_of m k of None \<Rightarrow> [] | Some v \<Rightarrow> v)"

section \<open>handlers: decoding an execution report\<close>

record ('f, 't) Order =
  Symbol :: string
  OrderID :: int
  ClientOrderID :: string
  Price :: 'f
  OrderQty :: 'f
  CumQty :: 'f
  CumQuoteQty :: 'f
  Status :: OrderStatus
  TimeInForce :: TimeInForce
  Type :: OrderType
  Side :: SideType
  IcebergQuantity :: 'f
  TransactTime :: 't
  OrderCreationTime :: 't
  WorkingTime :: 't

definition getText :: "Message \<Rightarrow> error + string" where
  "getText msg =
     (if Has (Body msg) tagText then Get (Body msg) tagText FIXString else Inr [])"

definition getSymbol :: "Message \<Rightarrow> error + string" where
  "getSymbol msg = Get (Body msg) tagSymbol FIXString"

definition getOrderID :: "Message \<Rightarrow> error + int" where
  "getOrderID msg =
     (case (if Has (Body msg) tagOrderID then Get (Body msg) tagOrderID FIXString else Inr []) of
        Inl e \<Rightarrow> Inl e
      | Inr v \<Rightarrow> checked (ParseInt v))"

definition getClientOrderID :: "Message \<Rightarrow> error + string" where
  "getClientOrderID msg =
     (if Has (Body msg) tagClOrdID then Get (Body msg) tagClOrdID FIXString else Inr [])"

definition getOrderStatus :: "Message \<Rightarrow> error + OrderStatus" where
  "getOrderStatus msg =
     (case Get (Body msg) tagOrdStatus FIXString of
        Inl e \<Rightarrow> Inl e
      | Inr v \<Rightarrow> Inr (lookupEnum mappedOrderStatus v))"

definition getOrdType :: "Message \<Rightarrow> error + OrderType" where
  "getOrdType msg =
     (case Get (Body msg) tagOrdType FIXString of
        Inl e \<Rightarrow> Inl e
      | Inr v \<Rightarrow> Inr (lookupEnum mappedOrderType v))"

definition getSide :: "Message \<Rightarrow> error + SideType" where
  "getSide msg =
     (case Get (Body msg) tagSide FIXString of
        Inl e \<Rightarrow> Inl e
      | Inr v \<Rightarrow> Inr (lookupEnum mappedSideType v))"

definition getTimeInForce :: "Message \<Rightarrow> error + TimeInForce" where
  "getTimeInForce msg =
     (if Has (Body msg) tagTimeInForce
      then (case Get (Body msg) tagTimeInForce FIXString of
              Inl e \<Rightarrow> Inl e
            | Inr v \<Rightarrow> Inr (lookupEnum mappedTimeInForce v))
      else Inr [])"

definition getPrice :: "('f::zero, 't) parsers \<Rightarrow> Message \<Rightarrow> error + 'f" where
  "getPrice P msg =
     (if Has (Body msg) tagPrice then Get (Body msg) tagPrice (readDecimal P) else Inr 0)"

definition getOrderQty :: "('f::zero, 't) parsers \<Rightarrow> Message \<Rightarrow> error + 'f" where
  "getOrderQty P msg =
     (if Has (Body msg) tagOrderQty then Get (Body msg) tagOrderQty (readDecimal P) else Inr 0)"

definition getCumQty :: "('f::zero, 't) parsers \<Rightarrow> Message \<Rightarrow> error + 'f" where
  "getCumQty P msg =
     (if Has (Body msg) tagCumQty then Get (Body msg) tagCumQty (readDecimal P) else Inr 0)"

definition getCumQuoteQty :: "('f::zero, 't) parsers \<Rightarrow> Message \<Rightarrow> error + 'f" where
  "getCumQuoteQty P msg =
     (if Has (Body msg) tagCumQuoteQty
      then (case GetString (Body msg) tagCumQuoteQty of
              Inl e \<Rightarrow> Inl e
            | Inr str \<Rightarrow> ParseFloat P str)
      else Inr 0)"

definition getMaxFloor :: "('f::zero, 't) parsers \<Rightarrow> Message \<Rightarrow> error + 'f" where
  "getMaxFloor P msg =
     (if Has (Body msg) tagMaxFloor then Get (Body msg) tagMaxFloor (readDecimal P) else Inr 0)"

definition getTransactTime :: "('f, 't::zero) parsers \<Rightarrow> Message \<Rightarrow> error + 't" where
  "getTransactTime P msg =
     (if Has (Body msg) tagTransactTime
      then Get (Body msg) tagTransactTime (readUTCTimestamp P)
      else Inr 0)"

definition getOrderCreationTime :: "('f, 't::zero) parsers \<Rightarrow> Message \<Rightarrow> error + 't" where
  "getOrderCreationTime P msg =
     (if Has (Body msg) tagOrderCreationTime
      then (case GetString (Body msg) tagOrderCreationTime of
              Inl e \<Rightarrow> Inl e
            | Inr str \<Rightarrow> timeParse P str)
      else Inr 0)"

definition getWorkingTime :: "('f, 't::zero) parsers \<Rightarrow> Message \<Rightarrow> error + 't" where
  "getWorkingTime P msg =
     (if Has (Body msg) tagWorkingTime
      then (case GetString (Body msg) tagWorkingTime of
              Inl e \<Rightarrow> Inl e
            | Inr str \<Rightarrow> timeParse P str)
      else Inr 0)"

text \<open>
  \<^verbatim>\<open>DecodeExecutionReport\<close>: every \<^verbatim>\<open>v, err := get(msg); if err != nil { return Order{}, err }\<close>
  of the source is one \<open>bindE\<close>, in the source's order.
\<close>

definition DecodeExecutionReport ::
  "('f::zero, 't::zero) parsers \<Rightarrow> Message \<Rightarrow> error + ('f, 't) Order" where
  "DecodeExecutionReport P msg =
     bindE (getOrderStatus msg) (\<lambda>status.
     bindE (if status = OrderStatusRejected
            then bindE (getText msg) (\<lambda>reason.
                   if reason \<noteq> [] then Inl (ErrorsNew reason) else Inr ())
            else Inr ()) (\<lambda>_.
     bindE (getSymbol msg) (\<lambda>symbol.
     bindE (getOrderID msg) (\<lambda>orderID.
     bindE (getClientOrderID msg) (\<lambda>clientOrderID.
     bindE (getPrice P msg) (\<lambda>price.
     bindE (getOrderQty P msg) (\<lambda>orderQty.
     bindE (getCumQty P msg) (\<lambda>cumQty.
     bindE (getCumQuoteQty P msg) (\<lambda>cumQuoteQty.
     bindE (getTimeInForce msg) (\<lambda>timeInForce.
     bindE (getOrdType msg) (\<lambda>orderType.
     bindE (getSide msg) (\<lambda>side.
     bindE (getMaxFloor P msg) (\<lambda>maxFloor.
     bindE (getTransactTime P msg) (\<lambda>transactTime.
     bindE (getOrderCreationTime P msg) (\<lambda>orderCreationTime.
     bindE (getWorkingTime P msg) (\<lambda>workingTime.
       Inr \<lparr>Symbol = symbol, OrderID = orderID, ClientOrderID = clientOrderID,
            Price = price, OrderQty = orderQty, CumQty = cumQty, CumQuoteQty = cumQuoteQty,
            Status = status, TimeInForce = timeInForce, Type = orderType, Side = side,
            IcebergQuantity = maxFloor, TransactTime = transactTime,
            OrderCreationTime = orderCreationTime, WorkingTime = workingTime\<rparr>))))))))))))))))"

section \<open>handlers: decoding a trade\<close>

record ('f, 't) Trade =
  Symbol :: string
  TradeID :: int
  Price :: 'f
  Quantity :: 'f
  TradeTime :: 't
  BuyerOrderID :: int
  SellerOrderID :: int
  IsBuyerMaker :: bool










section \<open>crypto: the logon signature\<close>








section \<open>client: pending calls\<close>

text \<open>
  A \<^verbatim>\<open>chan error\<close>: the errors waiting in its buffer (\<open>None\<close> is the \<^verbatim>\<open>nil\<close> error) and
  whether it has been closed. A call's channel is made with a buffer of one.
\<close>

record chan =
  buf :: "error option list"
  closed :: bool

record call =
  request :: Message
  response :: "Message option"
  doneCh :: chan

type_synonym waiter = call

definition makeChan :: chan where
  "makeChan = \<lparr>buf = [], closed = False\<rparr>"

text \<open>
  \<^verbatim>\<open>waiter.wait\<close> is one \<^verbatim>\<open>select\<close> over the call's channel and \<^verbatim>\<open>ctx.Done()\<close>. The context
  is given by what \<^verbatim>\<open>ctx.Err()\<close> returns: \<open>None\<close> while the context is live, the error
  once it is cancelled or past its deadline, which is when \<^verbatim>\<open>ctx.Done()\<close> is closed. The
  result lists what the select can do in this state, one entry per ready case in the
  source's order, each with the value returned and the call as the receive leaves it. Go
  picks any ready case; with no ready case the list is empty and the select blocks.
\<close>

definition wait ::
  "waiter \<Rightarrow> error option \<Rightarrow> ((error + Message option) \<times> waiter) list" where
  "wait w ctxErr =
     (if buf (doneCh w) \<noteq> [] \<or> closed (doneCh w)
      then [let (err, ch) =
                  (case buf (doneCh w) of
                     [] \<Rightarrow> (Some ErrClosed, doneCh w)
                   | e # es \<Rightarrow> (e, (doneCh w)\<lparr>buf := es\<rparr>))
            in (case err of Some e \<Rightarrow> Inl e | None \<Rightarrow> Inr (response w), w\<lparr>doneCh := ch\<rparr>)]
      else [])
     @ (case ctxErr of None \<Rightarrow> [] | Some e \<Rightarrow> [(Inl e, w)])"

section \<open>client: sending\<close>

text \<open>
  The fields of \<^verbatim>\<open>Client\<close> that the modelled methods read or write. The functions below
  take any extension of the record, so what they prove of the client holds of its other
  fields as well.
\<close>

record Client =
  isConnected :: bool
  pending :: "string \<rightharpoonup> call"
  apiKey :: string
  beginString :: string
  targetCompID :: string
  senderCompID :: string

text \<open>\<open>sendingTime\<close> is \<^verbatim>\<open>time.Now().UTC()\<close> as the engine writes it into tag 52.\<close>

definition addCommonHeaders :: "'z Client_scheme \<Rightarrow> string \<Rightarrow> Message \<Rightarrow> Message" where
  "addCommonHeaders c sendingTime msg =
     msg\<lparr>Header :=
       SetField (SetField (SetField (SetField (Header msg)
         8 (beginString c)) 56 (targetCompID c)) 49 (senderCompID c)) 52 sendingTime\<rparr>"

text \<open>
  \<open>Send\<close> is \<^verbatim>\<open>quickfix.Send\<close>: the engine takes the message or reports an error. \<^verbatim>\<open>send\<close>
  returns its result and the client as it leaves it.
\<close>

definition send ::
  "(Message \<Rightarrow> error option) \<Rightarrow> string \<Rightarrow> 'z Client_scheme \<Rightarrow> string \<Rightarrow> Message
     \<Rightarrow> (error + waiter) \<times> 'z Client_scheme" where
  "send Send sendingTime c ident msg =
     (if \<not> isConnected c then (Inl ErrClosed, c)
      else
        let msg' = addCommonHeaders c sendingTime msg;
            cc = \<lparr>request = msg', response = None, doneCh = makeChan\<rparr>;
            c1 = c\<lparr>pending := (pending c)(ident \<mapsto> cc)\<rparr>
        in (case Send msg' of
              Some err \<Rightarrow> (Inl err, c1\<lparr>pending := (pending c1)(ident := None)\<rparr>)
            | None \<Rightarrow> (Inr cc, c1)))"

definition SendWithoutResponse ::
  "(Message \<Rightarrow> error option) \<Rightarrow> string \<Rightarrow> 'z Client_scheme \<Rightarrow> Message
     \<Rightarrow> error option \<times> 'z Client_scheme" where
  "SendWithoutResponse Send sendingTime c msg =
     (if \<not> isConnected c then (Some ErrClosed, c)
      else (Send (addCommonHeaders c sendingTime msg), c))"

section \<open>client: news messages\<close>







section \<open>Market data requests\<close>

text \<open>
  Decimal text of an integer, as \<^verbatim>\<open>strconv.Itoa\<close> and the verb \<^verbatim>\<open>%d\<close> of \<^verbatim>\<open>fmt.Sprintf\<close>
  write it.
\<close>

definition digitChar :: "nat \<Rightarrow> char" where
  "digitChar d = char_of (48 + d)"

function natDigits :: "nat \<Rightarrow> string" where
  "natDigits n = (if n < 10 then [digitChar n] else natDigits (n div 10) @ [digitChar (n mod 10)])"
  by pat_completeness auto
termination
  by (relation "measure id") auto

declare natDigits.simps [simp del]

definition Itoa :: "int \<Rightarrow> string" where
  "Itoa i = (if i < 0 then CHR ''-'' # natDigits (nat (- i)) else natDigits (nat i))"

text \<open>
  A repeating group of the engine: its tag, its template (the tags of one entry, the first
  of them the delimiter that starts an entry) and its entries in the order they were
  added. \<open>AddGroup\<close> is \<^verbatim>\<open>Add()\<close> followed by the \<^verbatim>\<open>Set\<close> calls on the entry it returns.
  \<open>Write\<close> is the field the group becomes: the number of entries under the group's tag,
  then each entry's fields in template order. \<open>SetGroup\<close> stores that field in a field map.
\<close>

record RepeatingGroup =
  groupTag :: Tag
  template :: "Tag list"
  groups :: "FieldMap list"

definition NewRepeatingGroup :: "Tag \<Rightarrow> Tag list \<Rightarrow> RepeatingGroup" where
  "NewRepeatingGroup t tmpl = \<lparr>groupTag = t, template = tmpl, groups = []\<rparr>"

definition AddGroup :: "RepeatingGroup \<Rightarrow> FieldMap \<Rightarrow> RepeatingGroup" where
  "AddGroup rg g = rg\<lparr>groups := groups rg @ [g]\<rparr>"

definition writeEntry :: "Tag list \<Rightarrow> FieldMap \<Rightarrow> TagValue list" where
  "writeEntry tmpl g =
     concat (map (\<lambda>t. case g t of None \<Rightarrow> [] | Some (v, rest) \<Rightarrow> (t, v) # rest) tmpl)"

definition Write :: "RepeatingGroup \<Rightarrow> field" where
  "Write rg =
     (Itoa (int (length (groups rg))), concat (map (writeEntry (template rg)) (groups rg)))"

definition SetGroup :: "FieldMap \<Rightarrow> RepeatingGroup \<Rightarrow> FieldMap" where
  "SetGroup m rg = m(groupTag rg \<mapsto> Write rg)"

text \<open>The loop \<^verbatim>\<open>for _, symbol := range symbols\<close> of both request builders.\<close>

fun addSymbols :: "RepeatingGroup \<Rightarrow> string list \<Rightarrow> RepeatingGroup" where
  "addSymbols rg [] = rg"
| "addSymbols rg (symbol # symbols) =
     addSymbols (AddGroup rg (SetField Map.empty tagSymbol symbol)) symbols"

text \<open>
  The message \<^verbatim>\<open>SubscribeToTrades\<close> builds before it sends it, with the \<^verbatim>\<open>Set\<close> and
  \<^verbatim>\<open>SetGroup\<close> calls on the header and on the body in the source's order; \<open>nowNano\<close> is
  \<^verbatim>\<open>time.Now().UnixNano()\<close>. The tags are 35 (message type, \<^verbatim>\<open>V\<close> a market data request),
  262 (request id), 263 (subscription type, \<^verbatim>\<open>1\<close> snapshot plus updates, \<^verbatim>\<open>2\<close> disable),
  264 (market depth), 146 with 55 (the symbols) and 267 with 269 (the entry types, \<^verbatim>\<open>2\<close>
  a trade).
\<close>

definition SubscribeToTrades_msg :: "int \<Rightarrow> string list \<Rightarrow> Message" where
  "SubscribeToTrades_msg nowNano symbols =
     (let mdReqID = ''MDR_'' @ Itoa nowNano;
          noRelatedSymGroup = addSymbols (NewRepeatingGroup 146 [55]) symbols;
          noMDEntryTypesGroup =
            AddGroup (NewRepeatingGroup 267 [269]) (SetField Map.empty 269 ''2'')
      in \<lparr>Header = SetField (Header NewMessage) 35 ''V'',
          Body = SetGroup (SetGroup (SetField (SetField (SetField (Body NewMessage)
                   262 mdReqID) 263 ''1'') 264 (Itoa 1)) noRelatedSymGroup)
                   noMDEntryTypesGroup\<rparr>)"

definition SubscribeToTrades ::
  "(Message \<Rightarrow> error option) \<Rightarrow> int \<Rightarrow> string \<Rightarrow> 'z Client_scheme \<Rightarrow> string list
     \<Rightarrow> error option \<times> 'z Client_scheme" where
  "SubscribeToTrades Send nowNano sendingTime c symbols =
     SendWithoutResponse Send sendingTime c (SubscribeToTrades_msg nowNano symbols)"

definition UnsubscribeFromTrades_msg :: "int \<Rightarrow> string list \<Rightarrow> Message" where
  "UnsubscribeFromTrades_msg nowNano symbols =
     (let mdReqID = ''MDR_UNSUB_'' @ Itoa nowNano;
          noRelatedSymGroup = addSymbols (NewRepeatingGroup 146 [55]) symbols
      in \<lparr>Header = SetField (Header NewMessage) 35 ''V'',
          Body = SetGroup (SetField (SetField (Body NewMessage)
                   262 mdReqID) 263 ''2'') noRelatedSymGroup\<rparr>)"

definition UnsubscribeFromTrades ::
  "(Message \<Rightarrow> error option) \<Rightarrow> int \<Rightarrow> string \<Rightarrow> 'z Client_scheme \<Rightarrow> string list
     \<Rightarrow> error option \<times> 'z Client_scheme" where
  "UnsubscribeFromTrades Send nowNano sendingTime c symbols =
     SendWithoutResponse Send sendingTime c (UnsubscribeFromTrades_msg nowNano symbols)"

text \<open>
  Reading a repeating group back, as the engine's \<^verbatim>\<open>GetGroup\<close> does with the same template.
  The count is read as a decimal number (\<open>atoi\<close>). The pairs after it are taken while
  their tag is in the template: a pair with the delimiter's tag starts a new entry, any
  other pair of the template is stored in the entry being read. The read fails when the
  count is not a number, when a pair comes before the first delimiter, or when the number
  of entries read is not the count.
\<close>

fun parseUIntAcc :: "int \<Rightarrow> string \<Rightarrow> int option" where
  "parseUIntAcc n [] = Some n"
| "parseUIntAcc n (c # cs) =
     (case digitVal c of None \<Rightarrow> None | Some d \<Rightarrow> parseUIntAcc (n * 10 + int d) cs)"

definition parseUInt :: "string \<Rightarrow> int option" where
  "parseUInt d = (if d = [] then None else parseUIntAcc 0 d)"

definition atoi :: "string \<Rightarrow> int option" where
  "atoi d =
     (case d of
        [] \<Rightarrow> None
      | c # cs \<Rightarrow> if c = CHR ''-'' then map_option uminus (parseUInt cs) else parseUInt d)"

fun readEntries :: "Tag list \<Rightarrow> FieldMap list \<Rightarrow> TagValue list \<Rightarrow> FieldMap list option" where
  "readEntries tmpl gs [] = Some gs"
| "readEntries tmpl gs ((t, v) # tvs) =
     (if t \<notin> set tmpl then Some gs
      else if t = hd tmpl then readEntries tmpl (gs @ [SetField Map.empty t v]) tvs
      else if gs = [] then None
      else readEntries tmpl (butlast gs @ [SetField (last gs) t v]) tvs)"

definition GetGroup :: "FieldMap \<Rightarrow> Tag \<Rightarrow> Tag list \<Rightarrow> error + FieldMap list" where
  "GetGroup m t tmpl =
     (case m t of
        None \<Rightarrow> Inl (ConditionallyRequiredFieldMissing t)
      | Some (cnt, tvs) \<Rightarrow>
          (case atoi cnt of
             None \<Rightarrow> Inl (IncorrectDataFormatForValue t)
           | Some n \<Rightarrow>
               (case readEntries tmpl [] tvs of
                  None \<Rightarrow> Inl (IncorrectDataFormatForValue t)
                | Some gs \<Rightarrow>
                    if int (length gs) \<noteq> n then Inl (IncorrectDataFormatForValue t)
                    else Inr gs)))"

fun getSymbols :: "FieldMap list \<Rightarrow> error + string list" where
  "getSymbols [] = Inr []"
| "getSymbols (g # gs) =
     bindE (GetString g tagSymbol) (\<lambda>s. bindE (getSymbols gs) (\<lambda>ss. Inr (s # ss)))"

definition decodeSymbolGroup :: "Message \<Rightarrow> error + string list" where
  "decodeSymbolGroup msg = bindE (GetGroup (Body msg) 146 [55]) getSymbols"

section \<open>Example inputs\<close>

text \<open>
  The examples need an instance of the parsers. This one reads whole numbers only, and
  reads a time as the number that the digits of its text spell.
\<close>

definition sampleParsers :: "(int, int) parsers" where
  "sampleParsers =
     \<lparr>readDecimal = atoi,
      parseFloat = (\<lambda>s. case atoi s of None \<Rightarrow> Inl ErrSyntax | Some x \<Rightarrow> Inr x),
      readUTCTimestamp = (\<lambda>s. parseUInt (filter (\<lambda>c. digitVal c \<noteq> None) s)),
      parseMicros = (\<lambda>s. parseUInt (filter (\<lambda>c. digitVal c \<noteq> None) s))\<rparr>"

definition rejectedWithReason :: Message where
  "rejectedWithReason =
     \<lparr>Header = Map.empty,
      Body = [39 \<mapsto> (''8'', []), 55 \<mapsto> (''BTCUSDT'', []), 37 \<mapsto> (''12345'', []),
              58 \<mapsto> (''Insufficient balance'', [])]\<rparr>"

definition rejectedWithoutReason :: Message where
  "rejectedWithoutReason =
     \<lparr>Header = Map.empty,
      Body = [39 \<mapsto> (''8'', []), 55 \<mapsto> (''BTCUSDT'', []), 37 \<mapsto> (''12345'', []),
              40 \<mapsto> (''2'', []), 54 \<mapsto> (''1'', [])]\<rparr>"

definition reportWithUnknownValues :: Message where
  "reportWithUnknownValues =
     \<lparr>Header = Map.empty,
      Body = [39 \<mapsto> (''3'', []), 55 \<mapsto> (''BTCUSDT'', []), 37 \<mapsto> (''12345'', []),
              40 \<mapsto> (''P'', []), 54 \<mapsto> (''5'', []), 59 \<mapsto> (''0'', [])]\<rparr>"




text \<open>
  Two clients with the default identities of the two endpoints (\<^verbatim>\<open>BOETRADE\<close> for order
  entry, \<^verbatim>\<open>BMDWATCH\<close> for market data), the first with one outstanding call, a client that
  is not connected, and an engine that refuses every message.
\<close>

definition outstandingCall :: call where
  "outstandingCall = \<lparr>request = NewMessage, response = None, doneCh = makeChan\<rparr>"

definition orderEntryClient :: Client where
  "orderEntryClient =
     \<lparr>isConnected = True, pending = [''req-1'' \<mapsto> outstandingCall], apiKey = ''key'',
      beginString = ''FIX.4.4'', targetCompID = ''SPOT'', senderCompID = ''BOETRADE''\<rparr>"


definition disconnectedClient :: Client where
  "disconnectedClient = orderEntryClient\<lparr>isConnected := False\<rparr>"

definition refusingEngine :: "Message \<Rightarrow> error option" where
  "refusingEngine msg = Some (SendError ''session not found'')"



section \<open>Facts about the library model\<close>

lemmas tag_defs =
  tagClOrdID_def tagCumQty_def tagLastPx_def tagLastQty_def tagOrderID_def tagOrderQty_def
  tagOrdStatus_def tagOrdType_def tagPrice_def tagSide_def tagSymbol_def tagText_def
  tagTimeInForce_def tagTransactTime_def tagMaxFloor_def tagCumQuoteQty_def
  tagOrderCreationTime_def tagWorkingTime_def

lemmas status_defs =
  OrderStatusNew_def OrderStatusPartiallyFilled_def OrderStatusFilled_def
  OrderStatusCanceled_def OrderStatusPendingCancel_def OrderStatusRejected_def
  OrderStatusPendingNew_def OrderStatusExpired_def

lemma bindE_Inl [simp]: "bindE (Inl e) f = Inl e"
  by (simp add: bindE_def)

lemma bindE_Inr [simp]: "bindE (Inr v) f = f v"
  by (simp add: bindE_def)

lemma bindE_eq_Inr: "bindE r f = Inr y \<longleftrightarrow> (\<exists>v. r = Inr v \<and> f v = Inr y)"
  by (cases r) simp_all

lemma bindE_eq_Inl: "bindE r f = Inl e \<longleftrightarrow> r = Inl e \<or> (\<exists>v. r = Inr v \<and> f v = Inl e)"
  by (cases r) simp_all

lemma Get_FIXString:
  "Get m t FIXString =
     (case m t of None \<Rightarrow> Inl (ConditionallyRequiredFieldMissing t) | Some (v, r) \<Rightarrow> Inr v)"
  by (simp add: Get_def FIXString_def split: option.splits prod.splits)

lemma Get_not_ErrorsNew: "Get m t rd \<noteq> Inl (ErrorsNew r)"
  by (simp add: Get_def split: option.splits prod.splits)

lemma GetString_not_ErrorsNew: "GetString m t \<noteq> Inl (ErrorsNew r)"
  by (simp add: GetString_def split: option.splits prod.splits)

lemma ParseInt_not_ErrorsNew: "snd (ParseInt s) \<noteq> Some (ErrorsNew r)"
  by (simp add: ParseInt_def Let_def split: prod.splits)

lemma checked_ParseInt_not_ErrorsNew: "checked (ParseInt s) \<noteq> Inl (ErrorsNew r)"
  using ParseInt_not_ErrorsNew [of s r] by (auto simp: checked_def split: option.splits)

lemma ParseFloat_not_ErrorsNew: "ParseFloat P s \<noteq> Inl (ErrorsNew r)"
  by (simp add: ParseFloat_def split: sum.splits)

lemma timeParse_not_ErrorsNew: "timeParse P s \<noteq> Inl (ErrorsNew r)"
  by (simp add: timeParse_def split: option.splits)

lemmas lib_not_ErrorsNew =
  Get_not_ErrorsNew GetString_not_ErrorsNew checked_ParseInt_not_ErrorsNew
  ParseFloat_not_ErrorsNew timeParse_not_ErrorsNew

lemma getters_not_ErrorsNew:
  "getSymbol msg \<noteq> Inl (ErrorsNew r)"
  "getOrderID msg \<noteq> Inl (ErrorsNew r)"
  "getClientOrderID msg \<noteq> Inl (ErrorsNew r)"
  "getPrice P msg \<noteq> Inl (ErrorsNew r)"
  "getOrderQty P msg \<noteq> Inl (ErrorsNew r)"
  "getCumQty P msg \<noteq> Inl (ErrorsNew r)"
  "getCumQuoteQty P msg \<noteq> Inl (ErrorsNew r)"
  "getTimeInForce msg \<noteq> Inl (ErrorsNew r)"
  "getOrdType msg \<noteq> Inl (ErrorsNew r)"
  "getSide msg \<noteq> Inl (ErrorsNew r)"
  "getMaxFloor P msg \<noteq> Inl (ErrorsNew r)"
  "getTransactTime P msg \<noteq> Inl (ErrorsNew r)"
  "getOrderCreationTime P msg \<noteq> Inl (ErrorsNew r)"
  "getWorkingTime P msg \<noteq> Inl (ErrorsNew r)"
  by (auto simp: getSymbol_def getOrderID_def getClientOrderID_def getPrice_def
      getOrderQty_def getCumQty_def getCumQuoteQty_def getTimeInForce_def getOrdType_def
      getSide_def getMaxFloor_def getTransactTime_def getOrderCreationTime_def
      getWorkingTime_def lib_not_ErrorsNew bindE_eq_Inl split: sum.splits)

lemma getText_absent_or_empty:
  "Body msg tagText = None \<or> (\<exists>rest. Body msg tagText = Some ([], rest)) \<Longrightarrow> getText msg = Inr []"
  by (auto simp: getText_def Has_def Get_FIXString)

lemma getText_present:
  "Body msg tagText = Some (reason, rest) \<Longrightarrow> getText msg = Inr reason"
  by (simp add: getText_def Has_def Get_FIXString)

section \<open>Execution reports\<close>

lemma DecodeExecutionReport_Inr:
  assumes "DecodeExecutionReport P msg = Inr ord"
  shows "getOrderStatus msg = Inr (Status ord)"
    and "getSymbol msg = Inr (Order.Symbol ord)"
    and "getOrderID msg = Inr (OrderID ord)"
    and "getClientOrderID msg = Inr (ClientOrderID ord)"
    and "getPrice P msg = Inr (Order.Price ord)"
    and "getOrderQty P msg = Inr (OrderQty ord)"
    and "getCumQty P msg = Inr (CumQty ord)"
    and "getCumQuoteQty P msg = Inr (CumQuoteQty ord)"
    and "getTimeInForce msg = Inr (TimeInForce ord)"
    and "getOrdType msg = Inr (Type ord)"
    and "getSide msg = Inr (Side ord)"
    and "getMaxFloor P msg = Inr (IcebergQuantity ord)"
    and "getTransactTime P msg = Inr (TransactTime ord)"
    and "getOrderCreationTime P msg = Inr (OrderCreationTime ord)"
    and "getWorkingTime P msg = Inr (WorkingTime ord)"
  using assms unfolding DecodeExecutionReport_def bindE_eq_Inr by auto


text \<open>
  C1. When the order status of an execution report decodes to Rejected and the report
  carries the reason tag 58 with a non-empty text, \<^verbatim>\<open>DecodeExecutionReport\<close> returns the error
  made of that text (\<^verbatim>\<open>errors.New(reason)\<close>) and no order.
\<close>

theorem DecodeExecutionReport_rejected_reason:
  assumes "getOrderStatus msg = Inr OrderStatusRejected"
    and "Body msg tagText = Some (reason, rest)"
    and "reason \<noteq> []"
  shows "DecodeExecutionReport P msg = Inl (ErrorsNew reason)"
  using assms by (simp add: DecodeExecutionReport_def getText_present)

theorem DecodeExecutionReport_rejected_reason_witness:
  "getOrderStatus rejectedWithReason = Inr OrderStatusRejected
   \<and> Body rejectedWithReason tagText = Some (''Insufficient balance'', [])
   \<and> ''Insufficient balance'' \<noteq> []
   \<and> DecodeExecutionReport sampleParsers rejectedWithReason
       = Inl (ErrorsNew ''Insufficient balance'')"
proof -
  have s: "getOrderStatus rejectedWithReason = Inr OrderStatusRejected"
    by (simp add: getOrderStatus_def rejectedWithReason_def Get_FIXString tag_defs
        lookupEnum_def mappedOrderStatus_def)
  have t: "Body rejectedWithReason tagText = Some (''Insufficient balance'', [])"
    by (simp add: rejectedWithReason_def tag_defs)
  have n: "''Insufficient balance'' \<noteq> []"
    by simp
  from DecodeExecutionReport_rejected_reason [OF s t n, of sampleParsers] s t n
  show ?thesis by simp
qed

lemma getOrderStatus_value:
  "Body msg tagOrdStatus = Some (v, rest) \<Longrightarrow> getOrderStatus msg = Inr (lookupEnum mappedOrderStatus v)"
  by (simp add: getOrderStatus_def Get_FIXString)

lemma DecodeExecutionReport_no_rejection:
  assumes "getOrderStatus msg = Inr OrderStatusRejected" and "getText msg = Inr []"
  shows "DecodeExecutionReport P msg \<noteq> Inl (ErrorsNew r)"
  using assms
  by (simp add: DecodeExecutionReport_def bindE_eq_Inl getters_not_ErrorsNew)

lemma DecodeExecutionReport_all_fields:
  assumes "getOrderStatus msg = Inr status"
    and "status = OrderStatusRejected \<longrightarrow> getText msg = Inr []"
    and "getSymbol msg = Inr symbol"
    and "getOrderID msg = Inr orderID"
    and "getClientOrderID msg = Inr clientOrderID"
    and "getPrice P msg = Inr price"
    and "getOrderQty P msg = Inr orderQty"
    and "getCumQty P msg = Inr cumQty"
    and "getCumQuoteQty P msg = Inr cumQuoteQty"
    and "getTimeInForce msg = Inr timeInForce"
    and "getOrdType msg = Inr orderType"
    and "getSide msg = Inr side"
    and "getMaxFloor P msg = Inr maxFloor"
    and "getTransactTime P msg = Inr transactTime"
    and "getOrderCreationTime P msg = Inr orderCreationTime"
    and "getWorkingTime P msg = Inr workingTime"
  shows "DecodeExecutionReport P msg =
           Inr \<lparr>Order.Symbol = symbol, OrderID = orderID, ClientOrderID = clientOrderID,
                Order.Price = price, OrderQty = orderQty, CumQty = cumQty,
                CumQuoteQty = cumQuoteQty, Status = status, TimeInForce = timeInForce,
                Type = orderType, Side = side, IcebergQuantity = maxFloor,
                TransactTime = transactTime, OrderCreationTime = orderCreationTime,
                WorkingTime = workingTime\<rparr>"
  using assms by (simp add: DecodeExecutionReport_def)

lemmas enum_defs =
  status_defs TimeInForceGTC_def TimeInForceIOC_def TimeInForceFOK_def OrderTypeMarket_def
  OrderTypeLimit_def OrderTypeStop_def OrderTypeStopLimit_def SideTypeBuy_def SideTypeSell_def
  mappedOrderStatus_def mappedTimeInForce_def mappedOrderType_def mappedSideType_def

lemmas example_eval =
  Has_def Get_FIXString GetString_def tag_defs lookupEnum_def checked_def enum_defs

lemma ParseInt_12345: "ParseInt ''12345'' = (12345, None)"
  by (simp add: ParseInt_def ParseUint_def digitVal_def)

lemma rejectedWithoutReason_fields:
  "getOrderStatus rejectedWithoutReason = Inr OrderStatusRejected"
  "Body rejectedWithoutReason tagText = None"
  "getSymbol rejectedWithoutReason = Inr ''BTCUSDT''"
  "getOrderID rejectedWithoutReason = Inr 12345"
  "getClientOrderID rejectedWithoutReason = Inr []"
  "getPrice sampleParsers rejectedWithoutReason = Inr 0"
  "getOrderQty sampleParsers rejectedWithoutReason = Inr 0"
  "getCumQty sampleParsers rejectedWithoutReason = Inr 0"
  "getCumQuoteQty sampleParsers rejectedWithoutReason = Inr 0"
  "getTimeInForce rejectedWithoutReason = Inr []"
  "getOrdType rejectedWithoutReason = Inr OrderTypeLimit"
  "getSide rejectedWithoutReason = Inr SideTypeBuy"
  "getMaxFloor sampleParsers rejectedWithoutReason = Inr 0"
  "getTransactTime sampleParsers rejectedWithoutReason = Inr 0"
  "getOrderCreationTime sampleParsers rejectedWithoutReason = Inr 0"
  "getWorkingTime sampleParsers rejectedWithoutReason = Inr 0"
  by (simp_all add: rejectedWithoutReason_def example_eval ParseInt_12345
      getOrderStatus_def getSymbol_def getOrderID_def getClientOrderID_def getPrice_def
      getOrderQty_def getCumQty_def getCumQuoteQty_def getTimeInForce_def getOrdType_def
      getSide_def getMaxFloor_def getTransactTime_def getOrderCreationTime_def
      getWorkingTime_def)

text \<open>
  C10. When the order status decodes to Rejected but the reason tag 58 is absent or its
  text is empty, \<^verbatim>\<open>DecodeExecutionReport\<close> returns no rejection error (no \<^verbatim>\<open>errors.New\<close>
  error at all); it goes on to the remaining fields, and when every one of them decodes
  it returns the order made of them, with status Rejected.
\<close>

theorem DecodeExecutionReport_rejected_without_reason:
  assumes "getOrderStatus msg = Inr OrderStatusRejected"
    and "Body msg tagText = None \<or> (\<exists>rest. Body msg tagText = Some ([], rest))"
  shows "(\<forall>r. DecodeExecutionReport P msg \<noteq> Inl (ErrorsNew r)) \<and>
         (getSymbol msg = Inr symbol \<and> getOrderID msg = Inr orderID \<and>
          getClientOrderID msg = Inr clientOrderID \<and> getPrice P msg = Inr price \<and>
          getOrderQty P msg = Inr orderQty \<and> getCumQty P msg = Inr cumQty \<and>
          getCumQuoteQty P msg = Inr cumQuoteQty \<and> getTimeInForce msg = Inr timeInForce \<and>
          getOrdType msg = Inr orderType \<and> getSide msg = Inr side \<and>
          getMaxFloor P msg = Inr maxFloor \<and> getTransactTime P msg = Inr transactTime \<and>
          getOrderCreationTime P msg = Inr orderCreationTime \<and>
          getWorkingTime P msg = Inr workingTime
          \<longrightarrow> DecodeExecutionReport P msg =
                Inr \<lparr>Order.Symbol = symbol, OrderID = orderID, ClientOrderID = clientOrderID,
                     Order.Price = price, OrderQty = orderQty, CumQty = cumQty,
                     CumQuoteQty = cumQuoteQty, Status = OrderStatusRejected,
                     TimeInForce = timeInForce, Type = orderType, Side = side,
                     IcebergQuantity = maxFloor, TransactTime = transactTime,
                     OrderCreationTime = orderCreationTime, WorkingTime = workingTime\<rparr>)"
proof -
  have empty: "getText msg = Inr []"
    using assms(2) by (rule getText_absent_or_empty)
  show ?thesis
  proof (intro conjI allI impI)
    fix r
    show "DecodeExecutionReport P msg \<noteq> Inl (ErrorsNew r)"
      using assms(1) empty by (rule DecodeExecutionReport_no_rejection)
  next
    assume "getSymbol msg = Inr symbol \<and> getOrderID msg = Inr orderID \<and>
          getClientOrderID msg = Inr clientOrderID \<and> getPrice P msg = Inr price \<and>
          getOrderQty P msg = Inr orderQty \<and> getCumQty P msg = Inr cumQty \<and>
          getCumQuoteQty P msg = Inr cumQuoteQty \<and> getTimeInForce msg = Inr timeInForce \<and>
          getOrdType msg = Inr orderType \<and> getSide msg = Inr side \<and>
          getMaxFloor P msg = Inr maxFloor \<and> getTransactTime P msg = Inr transactTime \<and>
          getOrderCreationTime P msg = Inr orderCreationTime \<and>
          getWorkingTime P msg = Inr workingTime"
    with assms(1) empty show "DecodeExecutionReport P msg =
                Inr \<lparr>Order.Symbol = symbol, OrderID = orderID, ClientOrderID = clientOrderID,
                     Order.Price = price, OrderQty = orderQty, CumQty = cumQty,
                     CumQuoteQty = cumQuoteQty, Status = OrderStatusRejected,
                     TimeInForce = timeInForce, Type = orderType, Side = side,
                     IcebergQuantity = maxFloor, TransactTime = transactTime,
                     OrderCreationTime = orderCreationTime, WorkingTime = workingTime\<rparr>"
      by (intro DecodeExecutionReport_all_fields) simp_all
  qed
qed

theorem DecodeExecutionReport_rejected_without_reason_witness:
  "getOrderStatus rejectedWithoutReason = Inr OrderStatusRejected
   \<and> Body rejectedWithoutReason tagText = None
   \<and> DecodeExecutionReport sampleParsers rejectedWithoutReason =
       Inr \<lparr>Order.Symbol = ''BTCUSDT'', OrderID = 12345, ClientOrderID = [],
            Order.Price = 0, OrderQty = 0, CumQty = 0, CumQuoteQty = 0,
            Status = OrderStatusRejected, TimeInForce = [], Type = OrderTypeLimit,
            Side = SideTypeBuy, IcebergQuantity = 0, TransactTime = 0,
            OrderCreationTime = 0, WorkingTime = 0\<rparr>"
proof -
  have s: "getOrderStatus rejectedWithoutReason = Inr OrderStatusRejected"
    by (rule rejectedWithoutReason_fields)
  have t: "Body rejectedWithoutReason tagText = None
           \<or> (\<exists>rest. Body rejectedWithoutReason tagText = Some ([], rest))"
    by (simp add: rejectedWithoutReason_fields)
  from DecodeExecutionReport_rejected_without_reason [OF s t, of sampleParsers
      "''BTCUSDT''" 12345 "[]" 0 0 0 0 "[]" OrderTypeLimit SideTypeBuy 0 0 0 0]
  show ?thesis
    by (simp add: rejectedWithoutReason_fields)
qed


lemma absent_numeric_defaults:
  fixes P :: "('f::zero, 't) parsers"
  shows "\<not> Has (Body msg) tagPrice \<Longrightarrow> getPrice P msg = Inr 0"
    and "\<not> Has (Body msg) tagOrderQty \<Longrightarrow> getOrderQty P msg = Inr 0"
    and "\<not> Has (Body msg) tagCumQty \<Longrightarrow> getCumQty P msg = Inr 0"
    and "\<not> Has (Body msg) tagCumQuoteQty \<Longrightarrow> getCumQuoteQty P msg = Inr 0"
    and "\<not> Has (Body msg) tagMaxFloor \<Longrightarrow> getMaxFloor P msg = Inr 0"
  by (simp_all add: getPrice_def getOrderQty_def getCumQty_def getCumQuoteQty_def
      getMaxFloor_def)

lemma lookupEnum_unknown: "k \<notin> fst ` set m \<Longrightarrow> lookupEnum m k = []"
  by (simp add: lookupEnum_def map_of_eq_None_iff [THEN iffD2])

lemma unknown_enum_defaults:
  "Body msg tagOrdStatus = Some (v, rest) \<Longrightarrow> v \<notin> fst ` set mappedOrderStatus
     \<Longrightarrow> getOrderStatus msg = Inr []"
  "Body msg tagSide = Some (v, rest) \<Longrightarrow> v \<notin> fst ` set mappedSideType
     \<Longrightarrow> getSide msg = Inr []"
  "Body msg tagOrdType = Some (v, rest) \<Longrightarrow> v \<notin> fst ` set mappedOrderType
     \<Longrightarrow> getOrdType msg = Inr []"
  "Body msg tagTimeInForce = Some (v, rest) \<Longrightarrow> v \<notin> fst ` set mappedTimeInForce
     \<Longrightarrow> getTimeInForce msg = Inr []"
  by (simp_all add: getOrderStatus_def getSide_def getOrdType_def getTimeInForce_def
      Get_FIXString Has_def lookupEnum_unknown)

lemma decoded_defaults:
  fixes P :: "('f::zero, 't::zero) parsers"
  assumes d: "DecodeExecutionReport P msg = Inr ord"
  shows "\<not> Has (Body msg) tagPrice \<Longrightarrow> Order.Price ord = 0"
    and "\<not> Has (Body msg) tagOrderQty \<Longrightarrow> OrderQty ord = 0"
    and "\<not> Has (Body msg) tagCumQty \<Longrightarrow> CumQty ord = 0"
    and "\<not> Has (Body msg) tagCumQuoteQty \<Longrightarrow> CumQuoteQty ord = 0"
    and "\<not> Has (Body msg) tagMaxFloor \<Longrightarrow> IcebergQuantity ord = 0"
    and "Body msg tagOrdStatus = Some (v, rest) \<Longrightarrow> v \<notin> fst ` set mappedOrderStatus
           \<Longrightarrow> Status ord = []"
    and "Body msg tagSide = Some (v, rest) \<Longrightarrow> v \<notin> fst ` set mappedSideType
           \<Longrightarrow> Side ord = []"
    and "Body msg tagOrdType = Some (v, rest) \<Longrightarrow> v \<notin> fst ` set mappedOrderType
           \<Longrightarrow> Type ord = []"
    and "Body msg tagTimeInForce = Some (v, rest) \<Longrightarrow> v \<notin> fst ` set mappedTimeInForce
           \<Longrightarrow> TimeInForce ord = []"
  using DecodeExecutionReport_Inr [OF d]
  by (simp_all add: absent_numeric_defaults unknown_enum_defaults)

text \<open>
  C8. In an execution report an absent price, order quantity, cumulative quantity,
  cumulative notional (tag 381) or iceberg quantity (tag 111) is read as zero and is no
  error; a status, side, order type or time in force whose value is not a key of the
  code's table is read as the zero value of the enumeration (the empty string) and is no
  error. The same holds of the fields of every order the decoder returns.
\<close>

theorem DecodeExecutionReport_soft_defaults:
  fixes P :: "('f::zero, 't::zero) parsers"
  shows
    "(\<not> Has (Body msg) tagPrice \<longrightarrow> getPrice P msg = Inr 0) \<and>
     (\<not> Has (Body msg) tagOrderQty \<longrightarrow> getOrderQty P msg = Inr 0) \<and>
     (\<not> Has (Body msg) tagCumQty \<longrightarrow> getCumQty P msg = Inr 0) \<and>
     (\<not> Has (Body msg) tagCumQuoteQty \<longrightarrow> getCumQuoteQty P msg = Inr 0) \<and>
     (\<not> Has (Body msg) tagMaxFloor \<longrightarrow> getMaxFloor P msg = Inr 0) \<and>
     (\<forall>v rest. Body msg tagOrdStatus = Some (v, rest) \<and> v \<notin> fst ` set mappedOrderStatus
         \<longrightarrow> getOrderStatus msg = Inr []) \<and>
     (\<forall>v rest. Body msg tagSide = Some (v, rest) \<and> v \<notin> fst ` set mappedSideType
         \<longrightarrow> getSide msg = Inr []) \<and>
     (\<forall>v rest. Body msg tagOrdType = Some (v, rest) \<and> v \<notin> fst ` set mappedOrderType
         \<longrightarrow> getOrdType msg = Inr []) \<and>
     (\<forall>v rest. Body msg tagTimeInForce = Some (v, rest) \<and> v \<notin> fst ` set mappedTimeInForce
         \<longrightarrow> getTimeInForce msg = Inr []) \<and>
     (\<forall>ord. DecodeExecutionReport P msg = Inr ord \<longrightarrow>
        (\<not> Has (Body msg) tagPrice \<longrightarrow> Order.Price ord = 0) \<and>
        (\<not> Has (Body msg) tagOrderQty \<longrightarrow> OrderQty ord = 0) \<and>
        (\<not> Has (Body msg) tagCumQty \<longrightarrow> CumQty ord = 0) \<and>
        (\<not> Has (Body msg) tagCumQuoteQty \<longrightarrow> CumQuoteQty ord = 0) \<and>
        (\<not> Has (Body msg) tagMaxFloor \<longrightarrow> IcebergQuantity ord = 0) \<and>
        (\<forall>v rest. Body msg tagOrdStatus = Some (v, rest) \<and> v \<notin> fst ` set mappedOrderStatus
            \<longrightarrow> Status ord = []) \<and>
        (\<forall>v rest. Body msg tagSide = Some (v, rest) \<and> v \<notin> fst ` set mappedSideType
            \<longrightarrow> Side ord = []) \<and>
        (\<forall>v rest. Body msg tagOrdType = Some (v, rest) \<and> v \<notin> fst ` set mappedOrderType
            \<longrightarrow> Type ord = []) \<and>
        (\<forall>v rest. Body msg tagTimeInForce = Some (v, rest) \<and> v \<notin> fst ` set mappedTimeInForce
            \<longrightarrow> TimeInForce ord = []))"
proof (intro conjI allI impI; (elim conjE)?)
  fix ord v rest
  assume d: "DecodeExecutionReport P msg = Inr ord"
  show "Status ord = []"
    if "Body msg tagOrdStatus = Some (v, rest)" "v \<notin> fst ` set mappedOrderStatus"
    using that decoded_defaults(6) [OF d] by simp
  show "Side ord = []"
    if "Body msg tagSide = Some (v, rest)" "v \<notin> fst ` set mappedSideType"
    using that decoded_defaults(7) [OF d] by simp
  show "Type ord = []"
    if "Body msg tagOrdType = Some (v, rest)" "v \<notin> fst ` set mappedOrderType"
    using that decoded_defaults(8) [OF d] by simp
  show "TimeInForce ord = []"
    if "Body msg tagTimeInForce = Some (v, rest)" "v \<notin> fst ` set mappedTimeInForce"
    using that decoded_defaults(9) [OF d] by simp
qed (simp_all add: absent_numeric_defaults unknown_enum_defaults decoded_defaults)


theorem DecodeExecutionReport_soft_defaults_witness:
  "\<not> Has (Body reportWithUnknownValues) tagPrice
   \<and> \<not> Has (Body reportWithUnknownValues) tagOrderQty
   \<and> \<not> Has (Body reportWithUnknownValues) tagCumQty
   \<and> \<not> Has (Body reportWithUnknownValues) tagCumQuoteQty
   \<and> \<not> Has (Body reportWithUnknownValues) tagMaxFloor
   \<and> Body reportWithUnknownValues tagOrdStatus = Some (''3'', [])
   \<and> ''3'' \<notin> fst ` set mappedOrderStatus
   \<and> Body reportWithUnknownValues tagSide = Some (''5'', [])
   \<and> ''5'' \<notin> fst ` set mappedSideType
   \<and> Body reportWithUnknownValues tagOrdType = Some (''P'', [])
   \<and> ''P'' \<notin> fst ` set mappedOrderType
   \<and> Body reportWithUnknownValues tagTimeInForce = Some (''0'', [])
   \<and> ''0'' \<notin> fst ` set mappedTimeInForce
   \<and> getPrice sampleParsers reportWithUnknownValues = Inr 0
   \<and> getOrderQty sampleParsers reportWithUnknownValues = Inr 0
   \<and> getCumQty sampleParsers reportWithUnknownValues = Inr 0
   \<and> getCumQuoteQty sampleParsers reportWithUnknownValues = Inr 0
   \<and> getMaxFloor sampleParsers reportWithUnknownValues = Inr 0
   \<and> getOrderStatus reportWithUnknownValues = Inr []
   \<and> getSide reportWithUnknownValues = Inr []
   \<and> getOrdType reportWithUnknownValues = Inr []
   \<and> getTimeInForce reportWithUnknownValues = Inr []
   \<and> DecodeExecutionReport sampleParsers reportWithUnknownValues =
       Inr \<lparr>Order.Symbol = ''BTCUSDT'', OrderID = 12345, ClientOrderID = [],
            Order.Price = 0, OrderQty = 0, CumQty = 0, CumQuoteQty = 0,
            Status = [], TimeInForce = [], Type = [], Side = [], IcebergQuantity = 0,
            TransactTime = 0, OrderCreationTime = 0, WorkingTime = 0\<rparr>"
proof -
  note ev = reportWithUnknownValues_def example_eval
  have absent:
    "\<not> Has (Body reportWithUnknownValues) tagPrice"
    "\<not> Has (Body reportWithUnknownValues) tagOrderQty"
    "\<not> Has (Body reportWithUnknownValues) tagCumQty"
    "\<not> Has (Body reportWithUnknownValues) tagCumQuoteQty"
    "\<not> Has (Body reportWithUnknownValues) tagMaxFloor"
    by (simp_all add: ev)
  have unknown:
    "Body reportWithUnknownValues tagOrdStatus = Some (''3'', [])"
    "''3'' \<notin> fst ` set mappedOrderStatus"
    "Body reportWithUnknownValues tagSide = Some (''5'', [])"
    "''5'' \<notin> fst ` set mappedSideType"
    "Body reportWithUnknownValues tagOrdType = Some (''P'', [])"
    "''P'' \<notin> fst ` set mappedOrderType"
    "Body reportWithUnknownValues tagTimeInForce = Some (''0'', [])"
    "''0'' \<notin> fst ` set mappedTimeInForce"
    by (simp_all add: ev)
  have defaults:
    "getPrice sampleParsers reportWithUnknownValues = Inr 0"
    "getOrderQty sampleParsers reportWithUnknownValues = Inr 0"
    "getCumQty sampleParsers reportWithUnknownValues = Inr 0"
    "getCumQuoteQty sampleParsers reportWithUnknownValues = Inr 0"
    "getMaxFloor sampleParsers reportWithUnknownValues = Inr 0"
    "getOrderStatus reportWithUnknownValues = Inr []"
    "getSide reportWithUnknownValues = Inr []"
    "getOrdType reportWithUnknownValues = Inr []"
    "getTimeInForce reportWithUnknownValues = Inr []"
    using DecodeExecutionReport_soft_defaults [of reportWithUnknownValues sampleParsers]
      absent unknown
    by blast+
  have others:
    "getSymbol reportWithUnknownValues = Inr ''BTCUSDT''"
    "getOrderID reportWithUnknownValues = Inr 12345"
    "getClientOrderID reportWithUnknownValues = Inr []"
    "getTransactTime sampleParsers reportWithUnknownValues = Inr 0"
    "getOrderCreationTime sampleParsers reportWithUnknownValues = Inr 0"
    "getWorkingTime sampleParsers reportWithUnknownValues = Inr 0"
    by (simp_all add: ev ParseInt_12345 getSymbol_def getOrderID_def getClientOrderID_def
        getTransactTime_def getOrderCreationTime_def getWorkingTime_def)
  have "DecodeExecutionReport sampleParsers reportWithUnknownValues =
       Inr \<lparr>Order.Symbol = ''BTCUSDT'', OrderID = 12345, ClientOrderID = [],
            Order.Price = 0, OrderQty = 0, CumQty = 0, CumQuoteQty = 0,
            Status = [], TimeInForce = [], Type = [], Side = [], IcebergQuantity = 0,
            TransactTime = 0, OrderCreationTime = 0, WorkingTime = 0\<rparr>"
    by (intro DecodeExecutionReport_all_fields) (simp_all add: defaults others status_defs)
  with absent unknown defaults show ?thesis
    by simp
qed

section \<open>Trades\<close>













section \<open>Pending calls\<close>

lemma send_not_connected:
  "\<not> isConnected c \<Longrightarrow> send Send sendingTime c ident msg = (Inl ErrClosed, c)"
  by (simp add: send_def)

lemma send_transmission_fails:
  assumes "isConnected c"
    and "Send (addCommonHeaders c sendingTime msg) = Some err"
  shows "send Send sendingTime c ident msg = (Inl err, c\<lparr>pending := (pending c)(ident := None)\<rparr>)"
  using assms by (simp add: send_def Let_def)

lemma send_succeeds:
  assumes "isConnected c"
    and "Send (addCommonHeaders c sendingTime msg) = None"
  shows "send Send sendingTime c ident msg =
           (Inr \<lparr>request = addCommonHeaders c sendingTime msg, response = None, doneCh = makeChan\<rparr>,
            c\<lparr>pending := (pending c)(ident \<mapsto>
                 \<lparr>request = addCommonHeaders c sendingTime msg, response = None, doneCh = makeChan\<rparr>)\<rparr>)"
  using assms by (simp add: send_def Let_def)

text \<open>
  C2, as the code has it. A \<^verbatim>\<open>send\<close> on a client that is not connected returns
  \<^verbatim>\<open>ErrClosed\<close> and leaves the client, and so the pending calls, as they were. A \<^verbatim>\<open>send\<close>
  whose transmission fails returns the engine's error with no entry left under the id and
  every other entry untouched; the pending calls are then as they were before the call
  whenever the id was not outstanding when \<^verbatim>\<open>send\<close> was called.
\<close>

theorem send_failure_leaves_pending:
  "(\<not> isConnected c \<longrightarrow>
      fst (send Send sendingTime c ident msg) = Inl ErrClosed \<and>
      snd (send Send sendingTime c ident msg) = c) \<and>
   (isConnected c \<and> Send (addCommonHeaders c sendingTime msg) = Some err \<longrightarrow>
      fst (send Send sendingTime c ident msg) = Inl err \<and>
      pending (snd (send Send sendingTime c ident msg)) ident = None \<and>
      (\<forall>k. k \<noteq> ident \<longrightarrow> pending (snd (send Send sendingTime c ident msg)) k = pending c k) \<and>
      (pending c ident = None \<longrightarrow> snd (send Send sendingTime c ident msg) = c))"
proof (intro conjI impI allI; (elim conjE)?)
  assume a: "isConnected c" "Send (addCommonHeaders c sendingTime msg) = Some err"
  assume "pending c ident = None"
  then have "(pending c)(ident := None) = pending c"
    by (simp add: fun_upd_idem)
  with a show "snd (send Send sendingTime c ident msg) = c"
    by (simp add: send_transmission_fails)
qed (simp_all add: send_not_connected send_transmission_fails)


theorem send_failure_leaves_pending_witness:
  "\<not> isConnected disconnectedClient
   \<and> fst (send refusingEngine ''20240101-00:00:00.000'' disconnectedClient ''req-2'' NewMessage)
       = Inl ErrClosed
   \<and> snd (send refusingEngine ''20240101-00:00:00.000'' disconnectedClient ''req-2'' NewMessage)
       = disconnectedClient
   \<and> isConnected orderEntryClient
   \<and> refusingEngine (addCommonHeaders orderEntryClient ''20240101-00:00:00.000'' NewMessage)
       = Some (SendError ''session not found'')
   \<and> pending orderEntryClient ''req-2'' = None
   \<and> fst (send refusingEngine ''20240101-00:00:00.000'' orderEntryClient ''req-2'' NewMessage)
       = Inl (SendError ''session not found'')
   \<and> snd (send refusingEngine ''20240101-00:00:00.000'' orderEntryClient ''req-2'' NewMessage)
       = orderEntryClient"
proof -
  have d: "\<not> isConnected disconnectedClient"
    by (simp add: disconnectedClient_def)
  have c: "isConnected orderEntryClient"
    by (simp add: orderEntryClient_def)
  have r: "refusingEngine (addCommonHeaders orderEntryClient ''20240101-00:00:00.000'' NewMessage)
             = Some (SendError ''session not found'')"
    by (simp add: refusingEngine_def)
  have n: "pending orderEntryClient ''req-2'' = None"
    by (simp add: orderEntryClient_def)
  from send_failure_leaves_pending [where c = disconnectedClient and Send = refusingEngine
      and sendingTime = "''20240101-00:00:00.000''" and ident = "''req-2''"
      and msg = NewMessage] d
  have one: "fst (send refusingEngine ''20240101-00:00:00.000'' disconnectedClient ''req-2''
                NewMessage) = Inl ErrClosed"
    "snd (send refusingEngine ''20240101-00:00:00.000'' disconnectedClient ''req-2'' NewMessage)
       = disconnectedClient"
    by simp_all
  from send_failure_leaves_pending [where c = orderEntryClient and Send = refusingEngine
      and sendingTime = "''20240101-00:00:00.000''" and ident = "''req-2''"
      and msg = NewMessage and err = "SendError ''session not found''"] c r n
  have two: "fst (send refusingEngine ''20240101-00:00:00.000'' orderEntryClient ''req-2''
                NewMessage) = Inl (SendError ''session not found'')"
    "snd (send refusingEngine ''20240101-00:00:00.000'' orderEntryClient ''req-2'' NewMessage)
       = orderEntryClient"
    by simp_all
  from d c r n one two show ?thesis
    by simp
qed

text \<open>
  C2 as stated, for every id, fails: a \<^verbatim>\<open>send\<close> under an id that is outstanding overwrites
  the entry, and the failed transmission then deletes it, so the earlier call is gone.
\<close>

theorem send_failure_changes_pending_counterexample:
  "fst (send refusingEngine ''20240101-00:00:00.000'' orderEntryClient ''req-1'' NewMessage)
     = Inl (SendError ''session not found'')
   \<and> pending orderEntryClient ''req-1'' = Some outstandingCall
   \<and> pending (snd (send refusingEngine ''20240101-00:00:00.000'' orderEntryClient ''req-1''
         NewMessage)) ''req-1'' = None
   \<and> pending (snd (send refusingEngine ''20240101-00:00:00.000'' orderEntryClient ''req-1''
         NewMessage)) \<noteq> pending orderEntryClient"
proof -
  have c: "isConnected orderEntryClient"
    by (simp add: orderEntryClient_def)
  have r: "refusingEngine (addCommonHeaders orderEntryClient ''20240101-00:00:00.000'' NewMessage)
             = Some (SendError ''session not found'')"
    by (simp add: refusingEngine_def)
  have before: "pending orderEntryClient ''req-1'' = Some outstandingCall"
    by (simp add: orderEntryClient_def)
  have after: "pending (snd (send refusingEngine ''20240101-00:00:00.000'' orderEntryClient
                 ''req-1'' NewMessage)) ''req-1'' = None"
    by (simp add: send_transmission_fails
        [where Send = refusingEngine and msg = NewMessage and err = "SendError ''session not found''",
         OF c r])
  from before after
  have "pending (snd (send refusingEngine ''20240101-00:00:00.000'' orderEntryClient ''req-1''
          NewMessage)) \<noteq> pending orderEntryClient"
    by (metis option.distinct(1))
  with before after show ?thesis
    by (simp add: send_transmission_fails
        [where Send = refusingEngine and msg = NewMessage and err = "SendError ''session not found''",
         OF c r])
qed

text \<open>
  C6. For a call whose channel is empty and open (no response and no error has arrived),
  \<^verbatim>\<open>wait\<close> under a context that is already cancelled or past its deadline has one ready
  case only: it returns the context's error at once, with no response, and leaves the
  call and its channel as they were, so nothing sent on the channel later is received by
  this \<^verbatim>\<open>wait\<close>.
\<close>

theorem wait_elapsed_deadline:
  assumes "buf (doneCh w) = []" and "\<not> closed (doneCh w)"
  shows "wait w (Some e) = [(Inl e, w)]"
  using assms by (simp add: wait_def)

theorem wait_elapsed_deadline_witness:
  "buf (doneCh outstandingCall) = [] \<and> \<not> closed (doneCh outstandingCall)
   \<and> wait outstandingCall (Some ContextDeadlineExceeded)
       = [(Inl ContextDeadlineExceeded, outstandingCall)]
   \<and> wait outstandingCall (Some ContextCanceled) = [(Inl ContextCanceled, outstandingCall)]"
proof -
  have b: "buf (doneCh outstandingCall) = []"
    by (simp add: outstandingCall_def makeChan_def)
  have o: "\<not> closed (doneCh outstandingCall)"
    by (simp add: outstandingCall_def makeChan_def)
  from wait_elapsed_deadline [OF b o, of ContextDeadlineExceeded]
    wait_elapsed_deadline [OF b o, of ContextCanceled] b o
  show ?thesis by simp
qed

section \<open>Subscriptions\<close>

text \<open>
  C9. \<^verbatim>\<open>SubscribeToTrades\<close> and \<^verbatim>\<open>UnsubscribeFromTrades\<close> leave the client as it was, for
  every list of symbols and whatever the engine answers: no pending call is registered,
  and no other field of the client changes. The only effect is the message handed to the
  engine.
\<close>

theorem subscriptions_leave_client:
  "snd (SubscribeToTrades Send nowNano sendingTime c symbols) = c
   \<and> pending (snd (SubscribeToTrades Send nowNano sendingTime c symbols)) = pending c
   \<and> snd (UnsubscribeFromTrades Send nowNano sendingTime c symbols) = c
   \<and> pending (snd (UnsubscribeFromTrades Send nowNano sendingTime c symbols)) = pending c"
  by (simp add: SubscribeToTrades_def UnsubscribeFromTrades_def SendWithoutResponse_def)

section \<open>The logon signature\<close>


section \<open>News messages\<close>







section \<open>The symbol group of a subscription\<close>

lemma addSymbols_groups:
  "groups (addSymbols rg symbols) = groups rg @ map (\<lambda>s. SetField Map.empty tagSymbol s) symbols"
  by (induction symbols arbitrary: rg) (simp_all add: AddGroup_def)

lemma addSymbols_template: "template (addSymbols rg symbols) = template rg"
  by (induction symbols arbitrary: rg) (simp_all add: AddGroup_def)

lemma addSymbols_groupTag: "groupTag (addSymbols rg symbols) = groupTag rg"
  by (induction symbols arbitrary: rg) (simp_all add: AddGroup_def)

lemma writeEntry_symbol: "writeEntry [55] (SetField Map.empty tagSymbol s) = [(55, s)]"
  by (simp add: writeEntry_def SetField_def tagSymbol_def)

lemma Write_addSymbols:
  "Write (addSymbols (NewRepeatingGroup 146 [55]) symbols)
     = (Itoa (int (length symbols)), map (Pair 55) symbols)"
proof -
  have "concat (map (writeEntry [55]) (map (\<lambda>s. SetField Map.empty tagSymbol s) symbols))
          = map (Pair 55) symbols"
    by (induction symbols) (simp_all add: writeEntry_symbol)
  then show ?thesis
    by (simp add: Write_def addSymbols_groups addSymbols_template NewRepeatingGroup_def)
qed

lemma digitVal_digitChar: "d < 10 \<Longrightarrow> digitVal (digitChar d) = Some d"
  by (simp add: digitVal_def digitChar_def)

lemma parseUIntAcc_append:
  "parseUIntAcc n (xs @ ys) =
     (case parseUIntAcc n xs of None \<Rightarrow> None | Some m \<Rightarrow> parseUIntAcc m ys)"
  by (induction xs arbitrary: n) (simp_all split: option.splits)

lemma parseUIntAcc_natDigits: "parseUIntAcc 0 (natDigits n) = Some (int n)"
proof (induction n rule: natDigits.induct)
  case (1 n)
  show ?case
  proof (cases "n < 10")
    case True
    then show ?thesis
      by (subst natDigits.simps) (simp add: digitVal_digitChar)
  next
    case False
    with 1 have ih: "parseUIntAcc 0 (natDigits (n div 10)) = Some (int (n div 10))"
      by simp
    have "int (n div 10) * 10 + int (n mod 10) = int n"
      by (simp add: zdiv_int zmod_int)
    with False ih show ?thesis
      by (subst natDigits.simps) (simp add: parseUIntAcc_append digitVal_digitChar)
  qed
qed

lemma natDigits_head: "\<exists>c cs. natDigits n = c # cs \<and> digitVal c \<noteq> None"
proof (induction n rule: natDigits.induct)
  case (1 n)
  show ?case
  proof (cases "n < 10")
    case True
    then show ?thesis
      by (subst natDigits.simps) (simp add: digitVal_digitChar)
  next
    case False
    with 1 obtain c cs where "natDigits (n div 10) = c # cs" "digitVal c \<noteq> None"
      by auto
    with False show ?thesis
      by (subst natDigits.simps) simp
  qed
qed

lemma atoi_Itoa: "atoi (Itoa (int n)) = Some (int n)"
proof -
  obtain c cs where d: "natDigits n = c # cs" "digitVal c \<noteq> None"
    using natDigits_head by blast
  then have "c \<noteq> CHR ''-''"
    by (auto simp: digitVal_def)
  with d parseUIntAcc_natDigits [of n] show ?thesis
    by (simp add: atoi_def Itoa_def parseUInt_def)
qed

lemma readEntries_symbols:
  "readEntries [55] gs (map (Pair 55) symbols)
     = Some (gs @ map (\<lambda>s. SetField Map.empty tagSymbol s) symbols)"
  by (induction symbols arbitrary: gs) (simp_all add: tagSymbol_def)

lemma getSymbols_entries:
  "getSymbols (map (\<lambda>s. SetField Map.empty tagSymbol s) symbols) = Inr symbols"
  by (induction symbols) (simp_all add: GetString_def SetField_def)

lemma NewRepeatingGroup_groupTag: "groupTag (NewRepeatingGroup t tmpl) = t"
  by (simp add: NewRepeatingGroup_def)

lemma SubscribeToTrades_msg_group:
  "Body (SubscribeToTrades_msg nowNano symbols) 146
     = Some (Itoa (int (length symbols)), map (Pair 55) symbols)"
  by (simp add: SubscribeToTrades_msg_def Let_def SetGroup_def addSymbols_groupTag
      Write_addSymbols NewRepeatingGroup_groupTag AddGroup_def)

text \<open>
  C7. The message \<^verbatim>\<open>SubscribeToTrades\<close> builds carries, under tag 146, the number of symbols
  and then one pair of tag 55 per symbol, in the order of the list; reading that group
  back gives the list itself, for every list, and so for \<^verbatim>\<open>BTCUSDT\<close>, \<^verbatim>\<open>ETHUSDT\<close>.
\<close>

theorem SubscribeToTrades_symbols_roundtrip:
  "Body (SubscribeToTrades_msg nowNano symbols) 146
     = Some (Itoa (int (length symbols)), map (Pair 55) symbols)
   \<and> decodeSymbolGroup (SubscribeToTrades_msg nowNano symbols) = Inr symbols
   \<and> decodeSymbolGroup (SubscribeToTrades_msg nowNano [''BTCUSDT'', ''ETHUSDT''])
       = Inr [''BTCUSDT'', ''ETHUSDT'']"
proof -
  have *: "decodeSymbolGroup (SubscribeToTrades_msg nowNano syms) = Inr syms" for syms
    by (simp add: decodeSymbolGroup_def GetGroup_def SubscribeToTrades_msg_group atoi_Itoa
        readEntries_symbols getSymbols_entries)
  show ?thesis
    by (simp add: * SubscribeToTrades_msg_group)
qed

end
